theory Spec2Isabelle
  imports Main "HOL-Library.Word"
begin

unbundle bit_operations_syntax

section \<open>Data model\<close>

type_synonym byte = "8 word"

text \<open>
  Go's \<open>[32]byte\<close>: an array whose length is part of its type. Both hashes of a
  certificate have this type, so a hash of another length is not a value of the model.
\<close>

typedef bytes32 = "{bs :: byte list. length bs = 32}"
  by (rule exI [of _ "replicate 32 0"]) simp

text \<open>
  Modelled from the spec: the struct \<open>arbstate.DataAvailabilityCertificate\<close> is
  declared in the package \<open>arbstate\<close>, outside the files at hand. \<open>das.go\<close> reads
  the five fields below, slices the two hashes as arrays and writes the two integers as
  \<open>uint64\<close>; the length of the hashes, 32 bytes, is the one the data model of the
  spec gives. The signature type belongs to the package \<open>blsSignatures\<close> and stays a
  type parameter.
\<close>

record 'sig DataAvailabilityCertificate =
  KeysetHash :: bytes32
  DataHash :: bytes32
  Timeout :: "64 word"
  SignersMask :: "64 word"
  Sig :: 'sig

section \<open>Wire codec (das.go)\<close>

text \<open>
  \<open>binary.BigEndian.PutUint64(b, v)\<close> of Go's standard library:
  \<open>b[0] = byte(v >> 56)\<close>, ..., \<open>b[7] = byte(v)\<close>.
\<close>

definition PutUint64 :: "64 word \<Rightarrow> byte list" where
  "PutUint64 v =
     [ucast (drop_bit 56 v), ucast (drop_bit 48 v), ucast (drop_bit 40 v),
      ucast (drop_bit 32 v), ucast (drop_bit 24 v), ucast (drop_bit 16 v),
      ucast (drop_bit 8 v), ucast v]"

text \<open>
  \<open>serializeSignableFields\<close> (das.go, lines 110 to 119): the data hash, then the
  timeout in big-endian order.
\<close>

definition serializeSignableFields :: "'sig DataAvailabilityCertificate \<Rightarrow> byte list" where
  "serializeSignableFields c = Rep_bytes32 (DataHash c) @ PutUint64 (Timeout c)"

text \<open>
  \<open>Serialize\<close> (das.go, lines 121 to 135). The constant
  \<open>arbstate.DASMessageHeaderFlag\<close> and the function
  \<open>blsSignatures.SignatureToBytes\<close> are declared outside the two files at hand; they
  are the parameters \<open>flag\<close> and \<open>SignatureToBytes\<close>. Each \<open>append\<close> of the source
  is one \<open>@\<close>, in the source's order.
\<close>

definition Serialize ::
  "byte \<Rightarrow> ('sig \<Rightarrow> byte list) \<Rightarrow> 'sig DataAvailabilityCertificate \<Rightarrow> byte list" where
  "Serialize flag SignatureToBytes c =
     (let buf = [];
          buf = buf @ [flag];
          buf = buf @ Rep_bytes32 (KeysetHash c);
          buf = buf @ serializeSignableFields c;
          buf = buf @ PutUint64 (SignersMask c)
      in buf @ SignatureToBytes (Sig c))"

text \<open>
  \<open>binary.BigEndian.Uint64(b)\<close> of Go's standard library, the reader that goes with
  \<open>PutUint64\<close>: \<open>uint64(b[7]) | uint64(b[6])<<8 | ... | uint64(b[0])<<56\<close>.
\<close>

definition Uint64 :: "byte list \<Rightarrow> 64 word" where
  "Uint64 b =
     ucast (b ! 7) OR push_bit 8 (ucast (b ! 6)) OR push_bit 16 (ucast (b ! 5)) OR
     push_bit 24 (ucast (b ! 4)) OR push_bit 32 (ucast (b ! 3)) OR
     push_bit 40 (ucast (b ! 2)) OR push_bit 48 (ucast (b ! 1)) OR
     push_bit 56 (ucast (b ! 0))"

datatype decode_error = Truncated | UnknownHeaderFlag | BadSignatureLength | BadSignature

text \<open>
  Modelled from the spec: \<open>deserialize\<close>, the decoder of section 4.3, is not in
  \<open>das.go\<close> (the certificate type and its reader live in the package \<open>arbstate\<close>).
  The spec gives the layout (1 header byte, 32 bytes, 32 bytes, 8 bytes big-endian, 8
  bytes big-endian, then the signature in its fixed-size encoding of \<open>sigLen\<close> bytes)
  and the three failures: truncated input, an unknown header flag, a signature encoding
  of the wrong length. The decoder of signatures, \<open>SignatureFromBytes\<close>, is a
  parameter, like its inverse in \<open>Serialize\<close>.
\<close>

definition deserialize ::
  "byte \<Rightarrow> nat \<Rightarrow> (byte list \<Rightarrow> 'sig option) \<Rightarrow> byte list \<Rightarrow>
   decode_error + 'sig DataAvailabilityCertificate" where
  "deserialize flag sigLen SignatureFromBytes bs =
     (case bs of
        [] \<Rightarrow> Inl Truncated
      | h # rest \<Rightarrow>
          if h \<noteq> flag then Inl UnknownHeaderFlag
          else if length rest < 80 then Inl Truncated
          else if length (drop 80 rest) \<noteq> sigLen then Inl BadSignatureLength
          else (case SignatureFromBytes (drop 80 rest) of
                  None \<Rightarrow> Inl BadSignature
                | Some sg \<Rightarrow>
                    Inr \<lparr>KeysetHash = Abs_bytes32 (take 32 rest),
                         DataHash = Abs_bytes32 (take 32 (drop 32 rest)),
                         Timeout = Uint64 (take 8 (drop 64 rest)),
                         SignersMask = Uint64 (take 8 (drop 72 rest)),
                         Sig = sg\<rparr>))"

section \<open>Mode selector (das.go)\<close>

datatype DataAvailabilityMode =
  OnchainDataAvailability | LocalDiskDataAvailability | AggregatorDataAvailability

definition OnchainDataAvailabilityString :: string where
  "OnchainDataAvailabilityString = ''onchain''"

definition LocalDiskDataAvailabilityString :: string where
  "LocalDiskDataAvailabilityString = ''local-disk''"

definition AggregatorDataAvailabilityString :: string where
  "AggregatorDataAvailabilityString = ''aggregator''"

text \<open>
  Modelled from the spec: the struct \<open>LocalDiskDASConfig\<close> is declared in another
  file of the package; \<open>Mode\<close> reads its string fields \<open>DataDir\<close>, \<open>KeyDir\<close> and
  \<open>PrivKey\<close> (the spec's data-dir, key-dir and inline private key).
\<close>

record LocalDiskDASConfig =
  DataDir :: string
  KeyDir :: string
  PrivKey :: string

text \<open>
  \<open>DataAvailabilityConfig\<close> (das.go, lines 49 to 54). The struct
  \<open>AggregatorConfig\<close> is declared elsewhere and is the type parameter \<open>'agg\<close>.
\<close>

record 'agg DataAvailabilityConfig =
  ModeImpl :: string
  LocalDiskDASConfig :: LocalDiskDASConfig
  AggregatorConfig :: 'agg
  StoreSignerAddress :: string

text \<open>
  \<open>DefaultDataAvailabilityConfig\<close> (das.go, lines 56 to 59). The composite literal
  names two fields; Go gives the others their zero values: empty strings, and the zero
  value of \<open>AggregatorConfig\<close>, a parameter here.
\<close>

definition DefaultDataAvailabilityConfig :: "'agg \<Rightarrow> 'agg DataAvailabilityConfig" where
  "DefaultDataAvailabilityConfig zeroAggregatorConfig =
     \<lparr>ModeImpl = OnchainDataAvailabilityString,
      LocalDiskDASConfig = \<lparr>DataDir = [], KeyDir = [], PrivKey = []\<rparr>,
      AggregatorConfig = zeroAggregatorConfig,
      StoreSignerAddress = []\<rparr>"

text \<open>
  \<open>Mode\<close> (das.go, lines 61 to 88). The calls of \<open>flag.Usage()\<close> are returned as
  a list of effects, in the order of the calls. Go's \<open>(0, err)\<close> is \<open>Inl err\<close>,
  the error being the message given to \<open>errors.New\<close>; \<open>(m, nil)\<close> is \<open>Inr m\<close>.
  \<open>reflect.DeepEqual\<close> on two struct values is equality. The variable
  \<open>DefaultAggregatorConfig\<close> is declared elsewhere and is a parameter.
\<close>

datatype effect = FlagUsage

definition Mode ::
  "'agg \<Rightarrow> 'agg DataAvailabilityConfig \<Rightarrow> effect list \<times> (string + DataAvailabilityMode)" where
  "Mode DefaultAggregatorConfig c =
     (if ModeImpl c = [] then
        ([], Inl ''--data-availability.mode missing'')
      else if ModeImpl c = OnchainDataAvailabilityString then
        ([], Inr OnchainDataAvailability)
      else if ModeImpl c = LocalDiskDataAvailabilityString then
        (if DataDir (LocalDiskDASConfig c) = [] \<or>
            (KeyDir (LocalDiskDASConfig c) = [] \<and> PrivKey (LocalDiskDASConfig c) = [])
         then ([FlagUsage],
               Inl ''--data-availability.local-disk.data-dir and .key-dir must be specified if mode is set to local'')
         else ([], Inr LocalDiskDataAvailability))
      else if ModeImpl c = AggregatorDataAvailabilityString then
        (if AggregatorConfig c = DefaultAggregatorConfig
         then ([FlagUsage],
               Inl ''--data-availability.aggregator.X config options must be specified if mode is set to aggregator'')
         else ([], Inr AggregatorDataAvailability))
      else
        ([FlagUsage], Inl (''--data-availability.mode '' @ ModeImpl c @ '' not recognized'')))"

section \<open>Store-signer address resolver (das.go)\<close>

text \<open>
  \<open>common.Address\<close> of go-ethereum is \<open>[20]byte\<close>. \<open>common.BytesToAddress(b)\<close>
  sets the address from \<open>b\<close>: when \<open>b\<close> is longer than 20 bytes it keeps the last
  20, and it copies them to the right end of a zeroed array.
\<close>

typedef Address = "{bs :: byte list. length bs = 20}"
  by (rule exI [of _ "replicate 20 0"]) simp

definition BytesToAddress :: "byte list \<Rightarrow> Address" where
  "BytesToAddress b =
     (let b = (if length b > 20 then drop (length b - 20) b else b)
      in Abs_Address (replicate (20 - length b) 0 @ b))"

text \<open>
  \<open>strings.HasPrefix\<close> and \<open>strings.TrimPrefix\<close> of Go's standard library.
\<close>

definition HasPrefix :: "string \<Rightarrow> string \<Rightarrow> bool" where
  "HasPrefix s p = (length s \<ge> length p \<and> take (length p) s = p)"

definition TrimPrefix :: "string \<Rightarrow> string \<Rightarrow> string" where
  "TrimPrefix s p = (if HasPrefix s p then drop (length p) s else s)"

text \<open>
  \<open>hex.DecodeString\<close> of Go's standard library. A hexadecimal digit is \<open>0\<close> to
  \<open>9\<close>, \<open>a\<close> to \<open>f\<close> or \<open>A\<close> to \<open>F\<close>. The decoder reads two characters at
  a time and stops at the first character that is no digit with \<open>InvalidByteError\<close>; a
  single character left at the end is checked the same way, and \<open>ErrLength\<close> is
  reported when it is a digit. The bytes \<open>DecodeString\<close> returns beside an error are
  dropped by its only caller, and by the model.
\<close>

datatype hex_error = InvalidByteError char | ErrLength

definition fromHexChar :: "char \<Rightarrow> byte option" where
  "fromHexChar c =
     (let n = (of_char c :: nat) in
      if 48 \<le> n \<and> n \<le> 57 then Some (of_nat (n - 48))
      else if 97 \<le> n \<and> n \<le> 102 then Some (of_nat (n - 97 + 10))
      else if 65 \<le> n \<and> n \<le> 70 then Some (of_nat (n - 65 + 10))
      else None)"

fun DecodeString :: "string \<Rightarrow> hex_error + byte list" where
  "DecodeString (p # q # rest) =
     (case fromHexChar p of
        None \<Rightarrow> Inl (InvalidByteError p)
      | Some a \<Rightarrow>
          (case fromHexChar q of
             None \<Rightarrow> Inl (InvalidByteError q)
           | Some b \<Rightarrow>
               (case DecodeString rest of
                  Inl e \<Rightarrow> Inl e
                | Inr bs \<Rightarrow> Inr ((push_bit 4 a OR b) # bs))))"
| "DecodeString [p] =
     (case fromHexChar p of
        None \<Rightarrow> Inl (InvalidByteError p)
      | Some a \<Rightarrow> Inl ErrLength)"
| "DecodeString [] = Inr []"

text \<open>
  \<open>StoreSignerAddressFromString\<close> (das.go, lines 90 to 101). Go's \<open>(nil, nil)\<close> is
  \<open>Inr None\<close>, \<open>(nil, err)\<close> is \<open>Inl err\<close> and \<open>(&addr, nil)\<close> is
  \<open>Inr (Some addr)\<close>.
\<close>

definition StoreSignerAddressFromString :: "string \<Rightarrow> hex_error + Address option" where
  "StoreSignerAddressFromString s =
     (if s = ''none'' then Inr None
      else
        (let s = TrimPrefix s ''0x'' in
         case DecodeString s of
           Inl err \<Rightarrow> Inl err
         | Inr addrBytes \<Rightarrow> Inr (Some (BytesToAddress addrBytes))))"

section \<open>Layered configuration loader (package util)\<close>

subsection \<open>The configuration tree of koanf\<close>

text \<open>
  The loader works on a \<open>koanf.Koanf\<close> instance, a library object that holds one
  tree of configuration values: a \<open>map[string]interface{}\<close> whose values are again
  such maps or values of any other kind. \<open>'v\<close> is the type of the values that are
  not maps.
\<close>

datatype 'v conf = Val 'v | Map "string \<Rightarrow> 'v conf option"

type_synonym 'v confMap = "string \<Rightarrow> 'v conf option"

text \<open>
  \<open>maps.Merge(a, b)\<close> of koanf merges the map \<open>a\<close> into \<open>b\<close>, key by key: a key
  that \<open>b\<close> lacks is added; a value of \<open>a\<close> that is not a map replaces the value of
  \<open>b\<close>; when both values are maps they are merged in turn; and a map of \<open>a\<close>
  replaces a value of \<open>b\<close> that is not a map. \<open>mergeValue val bVal\<close> is what is
  stored under a key that both maps have.
\<close>

primrec mergeValue :: "'v conf \<Rightarrow> 'v conf \<Rightarrow> 'v conf" where
  "mergeValue (Val v) bVal = Val v"
| "mergeValue (Map a) bVal =
     (case bVal of
        Val x \<Rightarrow> Map a
      | Map b \<Rightarrow>
          Map (\<lambda>key. case map_option mergeValue (a key) of
                        None \<Rightarrow> b key
                      | Some into \<Rightarrow>
                          (case b key of None \<Rightarrow> a key | Some bv \<Rightarrow> Some (into bv))))"

definition Merge :: "'v confMap \<Rightarrow> 'v confMap \<Rightarrow> 'v confMap" where
  "Merge a b =
     (\<lambda>key. case a key of
              None \<Rightarrow> b key
            | Some val \<Rightarrow>
                (case b key of None \<Rightarrow> Some val | Some bVal \<Rightarrow> Some (mergeValue val bVal)))"

text \<open>
  \<open>maps.Search(mp, path)\<close> of koanf follows the parts of a path down the tree. koanf
  calls it with the parts of a path it knows, never with no part at all.
\<close>

fun Search :: "'v confMap \<Rightarrow> string list \<Rightarrow> 'v conf option" where
  "Search mp [] = None"
| "Search mp (p # ps) =
     (case mp p of
        None \<Rightarrow> None
      | Some next \<Rightarrow>
          if ps = [] then Some next
          else (case next of Map m \<Rightarrow> Search m ps | Val x \<Rightarrow> None))"

text \<open>\<open>strings.Split(s, sep)\<close> for a separator of one character.\<close>

fun Split :: "string \<Rightarrow> char \<Rightarrow> string list" where
  "Split [] sep = [[]]"
| "Split (c # cs) sep =
     (if c = sep then [] # Split cs sep
      else (case Split cs sep of [] \<Rightarrow> [[c]] | x # xs \<Rightarrow> (c # x) # xs))"

text \<open>
  \<open>maps.Unflatten(m, ".")\<close> of koanf turns a flat map of dotted keys into a tree. For
  each key it walks the parts but the last, creating a map where a part is missing and
  stepping into the value of a part only when that value is a map, and then assigns the
  value under the last part. Go ranges over the flat map in an order it does not specify;
  the model takes the entries as a list and ranges over it from the head.
\<close>

fun insertPath :: "string list \<Rightarrow> 'v \<Rightarrow> 'v confMap \<Rightarrow> 'v confMap" where
  "insertPath [] v next = next"
| "insertPath [k] v next = next(k \<mapsto> Val v)"
| "insertPath (k # ks) v next =
     (case next k of
        None \<Rightarrow> next(k \<mapsto> Map (insertPath ks v Map.empty))
      | Some (Map n) \<Rightarrow> next(k \<mapsto> Map (insertPath ks v n))
      | Some (Val x) \<Rightarrow> insertPath ks v next)"

definition Unflatten :: "(string \<times> 'v) list \<Rightarrow> 'v confMap" where
  "Unflatten mp = fold (\<lambda>(k, v) out. insertPath (Split k CHR ''.'') v out) mp Map.empty"

subsection \<open>Providers, parsers and \<open>Load\<close>\<close>

text \<open>
  A \<open>koanf.Provider\<close> has two methods: \<open>Read\<close> returns a tree and \<open>ReadBytes\<close>
  returns raw bytes for a parser. \<open>k.Load(p, pa)\<close> calls \<open>p.Read()\<close> when the
  parser \<open>pa\<close> is \<open>nil\<close>, and \<open>p.ReadBytes()\<close> followed by \<open>pa.Unmarshal\<close>
  otherwise; it returns the first error, and else merges the tree into the one of \<open>k\<close>.
  The source mutates \<open>k\<close>; the model returns the new tree, or the error, after which
  the caller drops \<open>k\<close>. Errors are their printed text.
\<close>

record 'v Provider =
  Read :: "string + 'v confMap"
  ReadBytes :: "string + string"

definition Load ::
  "'v confMap \<Rightarrow> 'v Provider \<Rightarrow> (string \<Rightarrow> string + 'v confMap) option \<Rightarrow>
   string + 'v confMap" where
  "Load ko p pa =
     (case pa of
        None \<Rightarrow> (case Read p of Inl err \<Rightarrow> Inl err | Inr mp \<Rightarrow> Inr (Merge mp ko))
      | Some Unmarshal \<Rightarrow>
          (case ReadBytes p of
             Inl err \<Rightarrow> Inl err
           | Inr b \<Rightarrow>
               (case Unmarshal b of Inl err \<Rightarrow> Inl err | Inr mp \<Rightarrow> Inr (Merge mp ko))))"

text \<open>
  \<open>errors.Wrap(err, msg)\<close> of \<open>github.com/pkg/errors\<close>: the new error prints as the
  message, a colon and the cause.
\<close>

definition Wrap :: "string \<Rightarrow> string \<Rightarrow> string" where
  "Wrap err msg = msg @ '': '' @ err"

definition wrapped :: "string + 'a \<Rightarrow> string \<Rightarrow> string + 'a" where
  "wrapped r msg = (case r of Inl err \<Rightarrow> Inl (Wrap err msg) | Inr x \<Rightarrow> Inr x)"

text \<open>
  What the loader takes from outside the repository, as parameters: how Go prints a value
  (\<open>fmt.Sprintf("%v", v)\<close> in \<open>k.String\<close>), the JSON parser, the content of a local
  file, the content of an S3 object, what the environment provider reads for a prefix and
  a function that renames the variables, and \<open>strings.ToLower\<close>.
\<close>

record S3Config =
  AccessKey :: string
  SecretKey :: string
  Region :: string
  Bucket :: string
  ObjectKey :: string

record 'v outside =
  Sprint :: "'v conf \<Rightarrow> string"
  json_Unmarshal :: "string \<Rightarrow> string + 'v confMap"
  ReadFile :: "string \<Rightarrow> string + string"
  s3_GetObject :: "S3Config \<Rightarrow> string + string"
  env_Read :: "string \<Rightarrow> (string \<Rightarrow> string) \<Rightarrow> string + 'v confMap"
  ToLower :: "string \<Rightarrow> string"

text \<open>
  \<open>k.Exists(path)\<close>, \<open>k.Get(path)\<close> and \<open>k.String(path)\<close>. koanf keeps a table
  of the paths of all nodes of the tree, leaves and maps alike, each joined with the
  delimiter, and looks the path up there before it searches the tree. The keys the
  loader, the flags and the environment provider use hold no delimiter inside a part; for
  such trees the table gives back the path split at the delimiter, which is what the model
  searches. \<open>String\<close> is the empty string when nothing is found.
\<close>

definition Get :: "'v confMap \<Rightarrow> string \<Rightarrow> 'v conf option" where
  "Get ko path = Search ko (Split path CHR ''.'')"

definition Exists :: "'v confMap \<Rightarrow> string \<Rightarrow> bool" where
  "Exists ko path = (Get ko path \<noteq> None)"

definition String :: "'v outside \<Rightarrow> 'v confMap \<Rightarrow> string \<Rightarrow> string" where
  "String w ko path = (case Get ko path of None \<Rightarrow> [] | Some v \<Rightarrow> Sprint w v)"

text \<open>
  A \<open>pflag.FlagSet\<close> after parsing: its flags, each with its name, its value and
  whether the command line set it. \<open>posflag.Provider(f, ".", k)\<close> reads every flag the
  command line set, and of the others those whose name does not exist in \<open>k\<close>, with
  their default values, and unflattens them. It has no \<open>ReadBytes\<close>.
\<close>

record 'v Flag =
  Name :: string
  Value :: 'v
  Changed :: bool

type_synonym 'v FlagSet = "'v Flag list"

definition posflag_Read :: "'v FlagSet \<Rightarrow> 'v confMap \<Rightarrow> 'v confMap" where
  "posflag_Read f ko =
     Unflatten (map (\<lambda>fl. (Name fl, Value fl))
                  (filter (\<lambda>fl. Changed fl \<or> \<not> Exists ko (Name fl)) f))"

definition posflag_Provider :: "'v FlagSet \<Rightarrow> 'v confMap \<Rightarrow> 'v Provider" where
  "posflag_Provider f ko =
     \<lparr>Read = Inr (posflag_Read f ko),
      ReadBytes = Inl ''pflag provider does not support this method''\<rparr>"

text \<open>
  The other providers. \<open>rawbytes\<close>, \<open>file\<close> and \<open>s3\<close> only give bytes: their
  \<open>Read\<close> is an error. \<open>env\<close> only gives a tree.
\<close>

definition rawbytes_Provider :: "string \<Rightarrow> 'v Provider" where
  "rawbytes_Provider b =
     \<lparr>Read = Inl ''buf provider does not support this method'', ReadBytes = Inr b\<rparr>"

definition file_Provider :: "'v outside \<Rightarrow> string \<Rightarrow> 'v Provider" where
  "file_Provider w path =
     \<lparr>Read = Inl ''file provider does not support this method'', ReadBytes = ReadFile w path\<rparr>"

definition s3_Provider :: "'v outside \<Rightarrow> S3Config \<Rightarrow> 'v Provider" where
  "s3_Provider w cfg =
     \<lparr>Read = Inl ''s3 provider does not support this method'',
      ReadBytes = s3_GetObject w cfg\<rparr>"

definition env_Provider :: "'v outside \<Rightarrow> string \<Rightarrow> (string \<Rightarrow> string) \<Rightarrow> 'v Provider" where
  "env_Provider w prefix cb =
     \<lparr>Read = env_Read w prefix cb,
      ReadBytes = Inl ''env provider does not support this method''\<rparr>"

subsection \<open>The loader (part_000)\<close>

text \<open>\<open>strings.ReplaceAll\<close> with a pattern that is not empty.\<close>

fun ReplaceAll :: "string \<Rightarrow> string \<Rightarrow> string \<Rightarrow> string" where
  "ReplaceAll [] old new = []"
| "ReplaceAll (c # cs) old new =
     (if old \<noteq> [] \<and> HasPrefix (c # cs) old
      then new @ ReplaceAll (drop (length old - 1) cs) old new
      else c # ReplaceAll cs old new)"

text \<open>
  \<open>loadEnvironmentVariables\<close> (part_000, lines 78 to 90). The function literal that
  renames a variable is \<open>envKey\<close>: \<open>FOO__BAR\<close> becomes \<open>foo-bar\<close>, and a single
  underscore a dot. The parser given to \<open>Load\<close> is \<open>nil\<close>.
\<close>

definition envKey :: "'v outside \<Rightarrow> string \<Rightarrow> string \<Rightarrow> string" where
  "envKey w envPrefix s =
     (let s = ReplaceAll (ToLower w (TrimPrefix s (envPrefix @ ''_''))) ''__'' ''-''
      in ReplaceAll s ''_'' ''.'')"

definition loadEnvironmentVariables :: "'v outside \<Rightarrow> 'v confMap \<Rightarrow> string + 'v confMap" where
  "loadEnvironmentVariables w k =
     (let envPrefix = String w k ''conf.env-prefix'' in
      if length envPrefix \<noteq> 0
      then Load k (env_Provider w (envPrefix @ ''_'') (envKey w envPrefix)) None
      else Inr k)"

text \<open>
  \<open>loadS3Variables\<close> (part_000, lines 92 to 100). Here too the parser given to
  \<open>Load\<close> is \<open>nil\<close>, so \<open>Load\<close> calls \<open>Read\<close> of the S3 provider.
\<close>

definition loadS3Variables :: "'v outside \<Rightarrow> 'v confMap \<Rightarrow> string + 'v confMap" where
  "loadS3Variables w k =
     Load k (s3_Provider w \<lparr>AccessKey = String w k ''conf.s3.access-key'',
                             SecretKey = String w k ''conf.s3.secret-key'',
                             Region = String w k ''conf.s3.region'',
                             Bucket = String w k ''conf.s3.bucket'',
                             ObjectKey = String w k ''conf.s3.object-key''\<rparr>) None"

text \<open>
  \<open>applyOverrideOverrides\<close> (part_000, lines 51 to 76): the command line, then the
  inline config string when there is one, with the command line once more after it, then
  the environment variables.
\<close>

definition applyOverrideOverrides ::
  "'v outside \<Rightarrow> 'v FlagSet \<Rightarrow> 'v confMap \<Rightarrow> string + 'v confMap" where
  "applyOverrideOverrides w f k =
     (case wrapped (Load k (posflag_Provider f k) None) ''error loading command line config'' of
        Inl err \<Rightarrow> Inl err
      | Inr k \<Rightarrow>
          (let configString = String w k ''conf.string'' in
           case (if length configString > 0
                 then (case wrapped (Load k (rawbytes_Provider configString)
                                       (Some (json_Unmarshal w)))
                              ''error loading config string config'' of
                         Inl err \<Rightarrow> Inl err
                       | Inr k \<Rightarrow>
                           wrapped (Load k (posflag_Provider f k) None)
                             ''error loading command line config'')
                 else Inr k) of
             Inl err \<Rightarrow> Inl err
           | Inr k \<Rightarrow>
               wrapped (loadEnvironmentVariables w k) ''error loading environment variables''))"

text \<open>
  \<open>applyOverrides\<close> (part_000, lines 18 to 48): one pass of
  \<open>applyOverrideOverrides\<close>; then, when an S3 secret key is configured, the S3 config
  and a second pass; then, when a local config file is configured, that file and a last
  pass.
\<close>

definition applyOverrides ::
  "'v outside \<Rightarrow> 'v FlagSet \<Rightarrow> 'v confMap \<Rightarrow> string + 'v confMap" where
  "applyOverrides w f k =
     (case applyOverrideOverrides w f k of
        Inl err \<Rightarrow> Inl err
      | Inr k \<Rightarrow>
          (case (if length (String w k ''conf.s3.secret-key'') \<noteq> 0
                 then (case wrapped (loadS3Variables w k) ''error loading S3 settings'' of
                         Inl err \<Rightarrow> Inl err
                       | Inr k \<Rightarrow> applyOverrideOverrides w f k)
                 else Inr k) of
             Inl err \<Rightarrow> Inl err
           | Inr k \<Rightarrow>
               (let configFile = String w k ''conf.file'' in
                if length configFile > 0
                then (case wrapped (Load k (file_Provider w configFile)
                                      (Some (json_Unmarshal w)))
                             ''error loading local config file'' of
                        Inl err \<Rightarrow> Inl err
                      | Inr k \<Rightarrow> applyOverrideOverrides w f k)
                else Inr k)))"

subsection \<open>Vocabulary for the order of the sources\<close>

text \<open>
  \<open>overlay ms k\<close> is the tree \<open>k\<close> after the trees of \<open>ms\<close> have been merged into
  it, the last of the list first: the head of the list was loaded last and is the
  strongest. \<open>walk\<close> follows a path from a node; a tree is \<open>silent\<close> on a path when
  the walk along the path leaves the tree at a map that lacks the next part, so that the
  tree says nothing about the path nor about any path it is part of.
\<close>

fun overlay :: "'v confMap list \<Rightarrow> 'v confMap \<Rightarrow> 'v confMap" where
  "overlay [] k = k"
| "overlay (m # ms) k = Merge m (overlay ms k)"

primrec walk :: "string list \<Rightarrow> 'v conf \<Rightarrow> 'v conf option" where
  "walk [] c = Some c"
| "walk (p # ps) c =
     (case c of
        Val x \<Rightarrow> None
      | Map m \<Rightarrow> (case m p of None \<Rightarrow> None | Some next \<Rightarrow> walk ps next))"

primrec silent :: "string list \<Rightarrow> 'v conf \<Rightarrow> bool" where
  "silent [] c = False"
| "silent (p # ps) c =
     (case c of
        Val x \<Rightarrow> False
      | Map m \<Rightarrow> (case m p of None \<Rightarrow> True | Some next \<Rightarrow> silent ps next))"

text \<open>
  The trees that one pass loads on a config: the inline config string, parsed, and the
  empty tree when \<open>conf.string\<close> is empty; the command line once more, which is loaded
  only after an inline string; the environment, and the empty tree when
  \<open>conf.env-prefix\<close> is empty. \<open>fileTree\<close> is the local config file, parsed.
\<close>

definition inlineTree :: "'v outside \<Rightarrow> 'v confMap \<Rightarrow> string + 'v confMap" where
  "inlineTree w k =
     (if String w k ''conf.string'' = [] then Inr Map.empty
      else json_Unmarshal w (String w k ''conf.string''))"

definition cliAgain :: "'v outside \<Rightarrow> 'v FlagSet \<Rightarrow> 'v confMap \<Rightarrow> 'v confMap \<Rightarrow> 'v confMap" where
  "cliAgain w f k J =
     (if String w k ''conf.string'' = [] then Map.empty else posflag_Read f (Merge J k))"

definition envTree :: "'v outside \<Rightarrow> 'v confMap \<Rightarrow> string + 'v confMap" where
  "envTree w k =
     (if String w k ''conf.env-prefix'' = [] then Inr Map.empty
      else env_Read w (String w k ''conf.env-prefix'' @ ''_'')
             (envKey w (String w k ''conf.env-prefix'')))"

definition fileTree :: "'v outside \<Rightarrow> string \<Rightarrow> string + 'v confMap" where
  "fileTree w path =
     (case ReadFile w path of Inl err \<Rightarrow> Inl err | Inr b \<Rightarrow> json_Unmarshal w b)"

text \<open>The value at a path in what the loader returns, and no value after an error.\<close>

definition valueOf :: "string + 'v confMap \<Rightarrow> string \<Rightarrow> 'v conf option" where
  "valueOf r path = (case r of Inl err \<Rightarrow> None | Inr k \<Rightarrow> Get k path)"

subsection \<open>A run with every source but S3\<close>

text \<open>
  A command line that sets the environment prefix, the inline config string, the local
  config file and the keys \<open>node.a\<close> and \<open>node.b\<close>, and leaves the S3 secret key and
  the flags \<open>node.e\<close> and \<open>node.g\<close> at their defaults; an environment with the
  variable \<open>NITRO_NODE_A\<close>; an inline string and a file that each set some of the keys
  \<open>node.a\<close> to \<open>node.e\<close> to their own name. \<open>asciiLower\<close> is
  \<open>strings.ToLower\<close> on strings of ASCII characters: a capital letter and its small
  letter differ by 32, the bit 5 of the character, which no capital letter has.
\<close>

definition asciiLower :: "string \<Rightarrow> string" where
  "asciiLower s =
     map (\<lambda>c. if 65 \<le> (of_char c :: nat) \<and> (of_char c :: nat) \<le> 90
              then (case c of Char b0 b1 b2 b3 b4 b5 b6 b7 \<Rightarrow> Char b0 b1 b2 b3 b4 True b6 b7)
              else c) s"

definition example_flags :: "string FlagSet" where
  "example_flags =
     [\<lparr>Name = ''conf.env-prefix'', Value = ''NITRO'', Changed = True\<rparr>,
      \<lparr>Name = ''conf.string'', Value = ''{inline}'', Changed = True\<rparr>,
      \<lparr>Name = ''conf.file'', Value = ''/etc/nitro.json'', Changed = True\<rparr>,
      \<lparr>Name = ''conf.s3.secret-key'', Value = [], Changed = False\<rparr>,
      \<lparr>Name = ''node.a'', Value = ''cli'', Changed = True\<rparr>,
      \<lparr>Name = ''node.b'', Value = ''cli'', Changed = True\<rparr>,
      \<lparr>Name = ''node.e'', Value = ''default'', Changed = False\<rparr>,
      \<lparr>Name = ''node.g'', Value = ''default'', Changed = False\<rparr>]"

definition example_outside :: "string outside" where
  "example_outside =
     \<lparr>Sprint = (\<lambda>c. case c of Val v \<Rightarrow> v | Map m \<Rightarrow> ''map[]''),
      json_Unmarshal = (\<lambda>text.
         if text = ''{inline}''
         then Inr [''node'' \<mapsto> Map [''a'' \<mapsto> Val ''inline'', ''b'' \<mapsto> Val ''inline'',
                                    ''c'' \<mapsto> Val ''inline'']]
         else if text = ''{file}''
         then Inr [''node'' \<mapsto> Map [''a'' \<mapsto> Val ''file'', ''b'' \<mapsto> Val ''file'',
                                    ''c'' \<mapsto> Val ''file'', ''d'' \<mapsto> Val ''file'',
                                    ''e'' \<mapsto> Val ''file'']]
         else Inl ''invalid JSON''),
      ReadFile = (\<lambda>path. if path = ''/etc/nitro.json'' then Inr ''{file}''
                          else Inl ''no such file''),
      s3_GetObject = (\<lambda>cfg. Inl ''no such bucket''),
      env_Read = (\<lambda>prefix cb.
         if prefix = ''NITRO_'' then Inr (Unflatten [(cb ''NITRO_NODE_A'', ''env'')])
         else Inr Map.empty),
      ToLower = asciiLower\<rparr>"

section \<open>Properties of the wire codec\<close>

lemma length_Rep_bytes32 [simp]: "length (Rep_bytes32 h) = 32"
  using Rep_bytes32 [of h] by simp

lemma length_PutUint64 [simp]: "length (PutUint64 v) = 8"
  by (simp add: PutUint64_def)

subsection \<open>Big-endian order\<close>

text \<open>
  The eight bytes of \<open>PutUint64 v\<close>, read as base-256 digits with the most significant
  digit first, are the number \<open>v\<close>. The arithmetic core is the expansion of a number
  below \<open>2 ^ 64\<close> into eight digits.
\<close>

lemma base256_digits:
  assumes "x < 18446744073709551616"
  shows "x div 72057594037927936 mod 256 * 72057594037927936 +
         x div 281474976710656 mod 256 * 281474976710656 +
         x div 1099511627776 mod 256 * 1099511627776 +
         x div 4294967296 mod 256 * 4294967296 +
         x div 16777216 mod 256 * 16777216 +
         x div 65536 mod 256 * 65536 +
         x div 256 mod 256 * 256 + x mod 256 = (x::nat)"
proof -
  have whole: "x mod 18446744073709551616 = x"
    using assms by simp
  note split = mod_mult2_eq [of x _ 256]
  show ?thesis
    using whole split [of 256] split [of 65536] split [of 16777216] split [of 4294967296]
      split [of 1099511627776] split [of 281474976710656] split [of 72057594037927936]
    by simp
qed

lemma horner_digits:
  assumes "x < 2 ^ 64"
  shows "(((((((0 * 256 + x div 2 ^ 56 mod 256) * 256 + x div 2 ^ 48 mod 256) * 256 +
    x div 2 ^ 40 mod 256) * 256 + x div 2 ^ 32 mod 256) * 256 + x div 2 ^ 24 mod 256) * 256 +
    x div 2 ^ 16 mod 256) * 256 + x div 2 ^ 8 mod 256) * 256 + x mod 256 = (x::nat)"
proof -
  have "x < 18446744073709551616"
    using assms by simp
  from base256_digits [OF this] show ?thesis
    by simp
qed

lemma unat_shifted: "unat (drop_bit k (v :: 64 word)) = unat v div 2 ^ k"
proof -
  have "unat (drop_bit k v) = drop_bit k (unat v)"
    by (rule unat_drop_bit_eq)
  also have "\<dots> = unat v div 2 ^ k"
    by (rule drop_bit_eq_div)
  finally show ?thesis .
qed

lemma unat_low_byte: "unat (ucast (v :: 64 word) :: byte) = unat v mod 256"
  by (simp add: unsigned_ucast_eq take_bit_eq_mod)

lemma PutUint64_value: "foldl (\<lambda>a b. a * 256 + unat b) 0 (PutUint64 v) = unat v"
proof -
  have "unat v < 2 ^ 64"
    using unsigned_less [of v, where ?'a = nat] by simp
  from horner_digits [OF this] show ?thesis
    by (simp only: PutUint64_def foldl.simps unat_low_byte unat_shifted)
qed

lemma Uint64_PutUint64: "Uint64 (PutUint64 v) = v"
proof (rule bit_word_eqI)
  fix n
  assume n: "n < LENGTH(64)"
  show "bit (Uint64 (PutUint64 v)) n \<longleftrightarrow> bit v n"
  proof (cases "bit v n")
    case False
    then show ?thesis
      unfolding Uint64_def PutUint64_def
      by (simp add: bit_simps less_diff_conv2 cong: conj_cong)
  next
    case True
    then show ?thesis
      unfolding Uint64_def PutUint64_def using n
      apply (simp add: bit_simps less_diff_conv2 cong: conj_cong)
      apply arith
      done
  qed
qed

subsection \<open>Layout\<close>

text \<open>
  Claim C1. For every certificate, \<open>Serialize\<close> returns exactly the header byte, the
  32 bytes of the keyset hash, the 32 bytes of the data hash, the timeout as 8 bytes
  big-endian, the signers mask as 8 bytes big-endian and the bytes of the signature, in
  that order and with nothing else; each part has the stated length and the two 8-byte
  groups, read most significant byte first, are the numbers they encode; so the output
  has 81 bytes plus the length of the signature encoding.
\<close>

theorem Serialize_layout:
  "Serialize flag SignatureToBytes c =
     [flag] @ Rep_bytes32 (KeysetHash c) @ Rep_bytes32 (DataHash c) @
     PutUint64 (Timeout c) @ PutUint64 (SignersMask c) @ SignatureToBytes (Sig c)
   \<and> length (Rep_bytes32 (KeysetHash c)) = 32
   \<and> length (Rep_bytes32 (DataHash c)) = 32
   \<and> length (PutUint64 (Timeout c)) = 8
   \<and> length (PutUint64 (SignersMask c)) = 8
   \<and> foldl (\<lambda>a b. a * 256 + unat b) 0 (PutUint64 (Timeout c)) = unat (Timeout c)
   \<and> foldl (\<lambda>a b. a * 256 + unat b) 0 (PutUint64 (SignersMask c)) = unat (SignersMask c)
   \<and> length (Serialize flag SignatureToBytes c) = 81 + length (SignatureToBytes (Sig c))"
  by (simp add: Serialize_def serializeSignableFields_def PutUint64_value)

text \<open>
  Claim C2. The signable fields are exactly 40 bytes, the data hash followed by the
  timeout in big-endian order; the keyset hash, the signers mask and the signature have
  no part in them; and they stand verbatim at offset 33 of \<open>Serialize c\<close>.
\<close>

theorem serializeSignableFields_layout:
  "serializeSignableFields c = Rep_bytes32 (DataHash c) @ PutUint64 (Timeout c)
   \<and> length (serializeSignableFields c) = 40
   \<and> foldl (\<lambda>a b. a * 256 + unat b) 0 (drop 32 (serializeSignableFields c)) =
       unat (Timeout c)
   \<and> serializeSignableFields (c\<lparr>KeysetHash := k, SignersMask := m, Sig := s\<rparr>) =
       serializeSignableFields c
   \<and> take 40 (drop 33 (Serialize flag SignatureToBytes c)) = serializeSignableFields c"
  by (simp add: Serialize_def serializeSignableFields_def PutUint64_value)

subsection \<open>Decoding\<close>

lemma deserialize_short:
  "length bs < 81 + sigLen \<Longrightarrow> isl (deserialize flag sigLen SignatureFromBytes bs)"
  by (auto simp: deserialize_def split: list.splits option.splits)

lemma deserialize_wrong_length:
  "length bs \<noteq> 81 + sigLen \<Longrightarrow> isl (deserialize flag sigLen SignatureFromBytes bs)"
  by (auto simp: deserialize_def split: list.splits option.splits)

lemma decode_after_encode:
  assumes "length (SignatureToBytes (Sig c)) = sigLen"
    and "SignatureFromBytes (SignatureToBytes (Sig c)) = Some (Sig c)"
  shows "deserialize flag sigLen SignatureFromBytes (Serialize flag SignatureToBytes c) = Inr c"
  using assms
  by (simp add: deserialize_def Serialize_def serializeSignableFields_def Rep_bytes32_inverse
      Uint64_PutUint64)

text \<open>
  Claim C3. A certificate is well-formed when its signature has the fixed-size encoding
  and \<open>SignatureFromBytes\<close> reads that encoding back. For every well-formed certificate
  \<open>deserialize (Serialize c) = c\<close>, and every proper prefix of \<open>Serialize c\<close> is
  refused. On any input \<open>deserialize\<close> returns an error, and no certificate, when the
  input is shorter than a certificate, when its first byte is not the header flag, and
  when the bytes after the 81 fixed ones are not exactly \<open>sigLen\<close>. The function is
  total: each of these is a returned value.
\<close>

theorem deserialize_Serialize:
  "(length (SignatureToBytes (Sig c)) = sigLen \<and>
    SignatureFromBytes (SignatureToBytes (Sig c)) = Some (Sig c) \<longrightarrow>
      deserialize flag sigLen SignatureFromBytes (Serialize flag SignatureToBytes c) = Inr c
      \<and> (n < length (Serialize flag SignatureToBytes c) \<longrightarrow>
           isl (deserialize flag sigLen SignatureFromBytes
                  (take n (Serialize flag SignatureToBytes c)))))
   \<and> (length bs < 81 + sigLen \<longrightarrow> isl (deserialize flag sigLen SignatureFromBytes bs))
   \<and> (h \<noteq> flag \<longrightarrow> deserialize flag sigLen SignatureFromBytes (h # rest) = Inl UnknownHeaderFlag)
   \<and> (length bs \<noteq> 81 + sigLen \<longrightarrow> isl (deserialize flag sigLen SignatureFromBytes bs))"
proof (intro conjI impI)
  assume wf: "length (SignatureToBytes (Sig c)) = sigLen \<and>
    SignatureFromBytes (SignatureToBytes (Sig c)) = Some (Sig c)"
  then show "deserialize flag sigLen SignatureFromBytes (Serialize flag SignatureToBytes c) = Inr c"
    by (simp add: decode_after_encode)
  assume "n < length (Serialize flag SignatureToBytes c)"
  moreover have "length (Serialize flag SignatureToBytes c) = 81 + sigLen"
    using wf by (simp add: Serialize_def serializeSignableFields_def)
  ultimately have "length (take n (Serialize flag SignatureToBytes c)) < 81 + sigLen"
    by simp
  then show "isl (deserialize flag sigLen SignatureFromBytes
      (take n (Serialize flag SignatureToBytes c)))"
    by (rule deserialize_short)
next
  assume "length bs < 81 + sigLen"
  then show "isl (deserialize flag sigLen SignatureFromBytes bs)"
    by (rule deserialize_short)
next
  assume "h \<noteq> flag"
  then show "deserialize flag sigLen SignatureFromBytes (h # rest) = Inl UnknownHeaderFlag"
    by (simp add: deserialize_def)
next
  assume "length bs \<noteq> 81 + sigLen"
  then show "isl (deserialize flag sigLen SignatureFromBytes bs)"
    by (rule deserialize_wrong_length)
qed

theorem deserialize_Serialize_witness:
  "deserialize 128 2 Some
     (Serialize 128 (\<lambda>sg. sg)
        \<lparr>KeysetHash = Abs_bytes32 (replicate 32 1), DataHash = Abs_bytes32 (replicate 32 2),
         Timeout = 1700000000, SignersMask = 1, Sig = [7, 9 :: byte]\<rparr>) =
   Inr \<lparr>KeysetHash = Abs_bytes32 (replicate 32 1), DataHash = Abs_bytes32 (replicate 32 2),
        Timeout = 1700000000, SignersMask = 1, Sig = [7, 9 :: byte]\<rparr>
   \<and> isl (deserialize 128 2 Some
        (take 82 (Serialize 128 (\<lambda>sg. sg)
           \<lparr>KeysetHash = Abs_bytes32 (replicate 32 1), DataHash = Abs_bytes32 (replicate 32 2),
            Timeout = 1700000000, SignersMask = 1, Sig = [7, 9 :: byte]\<rparr>)))
   \<and> isl (deserialize 128 2 (Some :: byte list \<Rightarrow> byte list option) [128, 0, 0])
   \<and> deserialize 128 2 (Some :: byte list \<Rightarrow> byte list option) (0 # replicate 82 0) =
       Inl UnknownHeaderFlag
   \<and> isl (deserialize 128 2 (Some :: byte list \<Rightarrow> byte list option) (replicate 84 128))"
  using deserialize_Serialize [where flag = 128 and sigLen = 2 and SignatureFromBytes = Some
      and SignatureToBytes = "\<lambda>sg. sg" and n = 82 and h = 0 and rest = "replicate 82 0"
      and bs = "[128, 0, 0]"
      and c = "\<lparr>KeysetHash = Abs_bytes32 (replicate 32 1),
                DataHash = Abs_bytes32 (replicate 32 2),
                Timeout = 1700000000, SignersMask = 1, Sig = [7, 9 :: byte]\<rparr>"]
    deserialize_Serialize [where flag = 128 and sigLen = 2
      and SignatureFromBytes = "Some :: byte list \<Rightarrow> byte list option"
      and SignatureToBytes = "\<lambda>sg. sg" and n = 0 and h = 0 and rest = "[]"
      and bs = "replicate 84 128"
      and c = "\<lparr>KeysetHash = Abs_bytes32 (replicate 32 1),
                DataHash = Abs_bytes32 (replicate 32 2),
                Timeout = 1700000000, SignersMask = 1, Sig = [7, 9 :: byte]\<rparr>"]
  by (simp add: Serialize_def serializeSignableFields_def)

section \<open>Properties of the mode selector\<close>

lemmas mode_strings =
  OnchainDataAvailabilityString_def LocalDiskDataAvailabilityString_def
  AggregatorDataAvailabilityString_def

text \<open>
  Claim C5. With the mode string \<open>local-disk\<close>, \<open>Mode\<close> returns the local-disk mode
  if and only if the data directory is not empty and the key directory or the inline
  private key is not empty. In that case nothing is printed; otherwise \<open>flag.Usage()\<close>
  has been called once and the error about the missing local-disk parameters is returned.
\<close>

theorem Mode_local_disk:
  assumes "ModeImpl c = LocalDiskDataAvailabilityString"
  shows "(snd (Mode DefaultAggregatorConfig c) = Inr LocalDiskDataAvailability \<longleftrightarrow>
            DataDir (LocalDiskDASConfig c) \<noteq> [] \<and>
            (KeyDir (LocalDiskDASConfig c) \<noteq> [] \<or> PrivKey (LocalDiskDASConfig c) \<noteq> []))
       \<and> Mode DefaultAggregatorConfig c =
           (if DataDir (LocalDiskDASConfig c) \<noteq> [] \<and>
               (KeyDir (LocalDiskDASConfig c) \<noteq> [] \<or> PrivKey (LocalDiskDASConfig c) \<noteq> [])
            then ([], Inr LocalDiskDataAvailability)
            else ([FlagUsage],
                  Inl ''--data-availability.local-disk.data-dir and .key-dir must be specified if mode is set to local''))"
  using assms by (simp add: Mode_def mode_strings)

theorem Mode_local_disk_witness:
  "Mode (0::nat)
     \<lparr>ModeImpl = ''local-disk'',
      LocalDiskDASConfig = \<lparr>DataDir = ''/var/das'', KeyDir = [], PrivKey = ''0a''\<rparr>,
      AggregatorConfig = 0, StoreSignerAddress = []\<rparr> = ([], Inr LocalDiskDataAvailability)
   \<and> Mode (0::nat)
     \<lparr>ModeImpl = ''local-disk'',
      LocalDiskDASConfig = \<lparr>DataDir = ''/var/das'', KeyDir = [], PrivKey = []\<rparr>,
      AggregatorConfig = 0, StoreSignerAddress = []\<rparr> =
     ([FlagUsage],
      Inl ''--data-availability.local-disk.data-dir and .key-dir must be specified if mode is set to local'')"
  using
    Mode_local_disk [of "\<lparr>ModeImpl = ''local-disk'',
      LocalDiskDASConfig = \<lparr>DataDir = ''/var/das'', KeyDir = [], PrivKey = ''0a''\<rparr>,
      AggregatorConfig = 0, StoreSignerAddress = []\<rparr>" "0::nat"]
    Mode_local_disk [of "\<lparr>ModeImpl = ''local-disk'',
      LocalDiskDASConfig = \<lparr>DataDir = ''/var/das'', KeyDir = [], PrivKey = []\<rparr>,
      AggregatorConfig = 0, StoreSignerAddress = []\<rparr>" "0::nat"]
  by (simp add: mode_strings)

text \<open>
  Claim C6. With the mode string \<open>aggregator\<close>, \<open>Mode\<close> returns the aggregator mode
  if and only if the aggregator sub-config differs from \<open>DefaultAggregatorConfig\<close>;
  when the two are equal it calls \<open>flag.Usage()\<close> and returns an error whose message
  names the section \<open>--data-availability.aggregator\<close>.
\<close>

theorem Mode_aggregator:
  assumes "ModeImpl c = AggregatorDataAvailabilityString"
  shows "(snd (Mode DefaultAggregatorConfig c) = Inr AggregatorDataAvailability \<longleftrightarrow>
            AggregatorConfig c \<noteq> DefaultAggregatorConfig)
       \<and> Mode DefaultAggregatorConfig c =
           (if AggregatorConfig c \<noteq> DefaultAggregatorConfig
            then ([], Inr AggregatorDataAvailability)
            else ([FlagUsage],
                  Inl (''--data-availability.'' @ AggregatorDataAvailabilityString @
                       ''.X config options must be specified if mode is set to aggregator'')))"
  using assms by (simp add: Mode_def mode_strings)

theorem Mode_aggregator_witness:
  "Mode (0::nat)
     \<lparr>ModeImpl = ''aggregator'', LocalDiskDASConfig = \<lparr>DataDir = [], KeyDir = [], PrivKey = []\<rparr>,
      AggregatorConfig = 0, StoreSignerAddress = []\<rparr> =
     ([FlagUsage],
      Inl ''--data-availability.aggregator.X config options must be specified if mode is set to aggregator'')
   \<and> Mode (0::nat)
     \<lparr>ModeImpl = ''aggregator'', LocalDiskDASConfig = \<lparr>DataDir = [], KeyDir = [], PrivKey = []\<rparr>,
      AggregatorConfig = 3, StoreSignerAddress = []\<rparr> = ([], Inr AggregatorDataAvailability)"
  using
    Mode_aggregator [of "\<lparr>ModeImpl = ''aggregator'',
      LocalDiskDASConfig = \<lparr>DataDir = [], KeyDir = [], PrivKey = []\<rparr>,
      AggregatorConfig = 0, StoreSignerAddress = []\<rparr>" "0::nat"]
    Mode_aggregator [of "\<lparr>ModeImpl = ''aggregator'',
      LocalDiskDASConfig = \<lparr>DataDir = [], KeyDir = [], PrivKey = []\<rparr>,
      AggregatorConfig = 3, StoreSignerAddress = []\<rparr>" "0::nat"]
  by (simp add: mode_strings)

text \<open>
  Claim C7. For a mode string that is none of \<open>onchain\<close>, \<open>local-disk\<close> and
  \<open>aggregator\<close>, the empty string included, \<open>Mode\<close> returns an error and no mode.
  For the empty string the error says that the mode is missing; for any other such string
  the message contains the string itself.
\<close>

theorem Mode_unrecognized:
  assumes "ModeImpl c \<noteq> OnchainDataAvailabilityString"
    and "ModeImpl c \<noteq> LocalDiskDataAvailabilityString"
    and "ModeImpl c \<noteq> AggregatorDataAvailabilityString"
  shows "isl (snd (Mode DefaultAggregatorConfig c))
       \<and> (ModeImpl c = [] \<longrightarrow>
            Mode DefaultAggregatorConfig c = ([], Inl ''--data-availability.mode missing''))
       \<and> (ModeImpl c \<noteq> [] \<longrightarrow>
            Mode DefaultAggregatorConfig c =
              ([FlagUsage], Inl (''--data-availability.mode '' @ ModeImpl c @ '' not recognized'')))"
  using assms by (simp add: Mode_def)

theorem Mode_unrecognized_witness:
  "Mode (0::nat)
     \<lparr>ModeImpl = ''remote'', LocalDiskDASConfig = \<lparr>DataDir = [], KeyDir = [], PrivKey = []\<rparr>,
      AggregatorConfig = 0, StoreSignerAddress = []\<rparr> =
     ([FlagUsage], Inl ''--data-availability.mode remote not recognized'')
   \<and> Mode (0::nat)
     \<lparr>ModeImpl = [], LocalDiskDASConfig = \<lparr>DataDir = [], KeyDir = [], PrivKey = []\<rparr>,
      AggregatorConfig = 0, StoreSignerAddress = []\<rparr> =
     ([], Inl ''--data-availability.mode missing'')"
  using
    Mode_unrecognized [of "\<lparr>ModeImpl = ''remote'',
      LocalDiskDASConfig = \<lparr>DataDir = [], KeyDir = [], PrivKey = []\<rparr>,
      AggregatorConfig = 0, StoreSignerAddress = []\<rparr>" "0::nat"]
    Mode_unrecognized [of "\<lparr>ModeImpl = [],
      LocalDiskDASConfig = \<lparr>DataDir = [], KeyDir = [], PrivKey = []\<rparr>,
      AggregatorConfig = 0, StoreSignerAddress = []\<rparr>" "0::nat"]
  by (simp add: mode_strings)

section \<open>Properties of the address resolver\<close>

lemma length_Rep_Address: "length (Rep_Address a) = 20"
  using Rep_Address [of a] by simp

lemma Rep_BytesToAddress:
  "Rep_Address (BytesToAddress b) =
     (if length b > 20 then drop (length b - 20) b else replicate (20 - length b) 0 @ b)"
  by (simp add: BytesToAddress_def Abs_Address_inverse)

text \<open>
  \<open>DecodeString\<close> succeeds exactly on the strings of even length made of hexadecimal
  digits, and two characters give one byte.
\<close>

lemma DecodeString_Inr_iff:
  "(\<exists>bs. DecodeString s = Inr bs) \<longleftrightarrow>
     even (length s) \<and> (\<forall>c\<in>set s. fromHexChar c \<noteq> None)"
  by (induction s rule: DecodeString.induct) (auto split: option.splits sum.splits)

lemma DecodeString_length: "DecodeString s = Inr bs \<Longrightarrow> length s = 2 * length bs"
  by (induction s arbitrary: bs rule: DecodeString.induct)
    (auto split: option.splits sum.splits)

lemma StoreSignerAddressFromString_other:
  "s \<noteq> ''none'' \<Longrightarrow>
   StoreSignerAddressFromString s =
     (case DecodeString (TrimPrefix s ''0x'') of
        Inl err \<Rightarrow> Inl err
      | Inr addrBytes \<Rightarrow> Inr (Some (BytesToAddress addrBytes)))"
  by (simp add: StoreSignerAddressFromString_def)

text \<open>
  Claim C4, as the code has it. For the input \<open>none\<close>, in exactly this spelling, the
  resolver returns no restriction and no error. For every other input it strips an
  optional \<open>0x\<close> and decodes the remainder as hexadecimal: it fails, with the decoder's
  error, exactly when the remainder has odd length or holds a character that is no
  hexadecimal digit, and it never returns "no restriction". Every remainder that decodes
  gives an address of 20 bytes, whatever the number of decoded bytes:
  \<open>BytesToAddress\<close> fits them into 20.
\<close>

theorem StoreSignerAddressFromString_spec:
  "StoreSignerAddressFromString ''none'' = Inr None
   \<and> (s \<noteq> ''none'' \<longrightarrow>
        StoreSignerAddressFromString s \<noteq> Inr None
        \<and> (isl (StoreSignerAddressFromString s) \<longleftrightarrow>
             odd (length (TrimPrefix s ''0x'')) \<or>
             (\<exists>c\<in>set (TrimPrefix s ''0x''). fromHexChar c = None))
        \<and> (\<forall>e. DecodeString (TrimPrefix s ''0x'') = Inl e \<longrightarrow>
             StoreSignerAddressFromString s = Inl e)
        \<and> (\<forall>bs. DecodeString (TrimPrefix s ''0x'') = Inr bs \<longrightarrow>
             StoreSignerAddressFromString s = Inr (Some (BytesToAddress bs))
             \<and> length (Rep_Address (BytesToAddress bs)) = 20))"
proof (intro conjI impI allI)
  show "StoreSignerAddressFromString ''none'' = Inr None"
    by (simp add: StoreSignerAddressFromString_def)
next
  assume "s \<noteq> ''none''"
  then show "StoreSignerAddressFromString s \<noteq> Inr None"
    by (simp add: StoreSignerAddressFromString_other split: sum.splits)
next
  assume ne: "s \<noteq> ''none''"
  have "isl (StoreSignerAddressFromString s) \<longleftrightarrow>
      \<not> (\<exists>bs. DecodeString (TrimPrefix s ''0x'') = Inr bs)"
    using ne by (auto simp: StoreSignerAddressFromString_other split: sum.splits)
  then show "isl (StoreSignerAddressFromString s) \<longleftrightarrow>
      odd (length (TrimPrefix s ''0x'')) \<or> (\<exists>c\<in>set (TrimPrefix s ''0x''). fromHexChar c = None)"
    by (auto simp: DecodeString_Inr_iff)
next
  fix e
  assume "s \<noteq> ''none''" and "DecodeString (TrimPrefix s ''0x'') = Inl e"
  then show "StoreSignerAddressFromString s = Inl e"
    by (simp add: StoreSignerAddressFromString_other)
next
  fix bs
  assume "s \<noteq> ''none''" and "DecodeString (TrimPrefix s ''0x'') = Inr bs"
  then show "StoreSignerAddressFromString s = Inr (Some (BytesToAddress bs))"
    by (simp add: StoreSignerAddressFromString_other)
next
  fix bs
  show "length (Rep_Address (BytesToAddress bs)) = 20"
    by (rule length_Rep_Address)
qed

theorem StoreSignerAddressFromString_spec_witness:
  "StoreSignerAddressFromString ''None'' = Inl (InvalidByteError CHR ''N'')
   \<and> StoreSignerAddressFromString ''0x123'' = Inl ErrLength
   \<and> StoreSignerAddressFromString ''0xab'' = Inr (Some (BytesToAddress [171]))"
  using StoreSignerAddressFromString_spec [of "''None''"]
    StoreSignerAddressFromString_spec [of "''0x123''"]
    StoreSignerAddressFromString_spec [of "''0xab''"]
  by (simp add: TrimPrefix_def HasPrefix_def fromHexChar_def)

text \<open>
  The claim as the spec words it asks for exactly 20 decoded bytes. The code accepts a
  single byte.
\<close>

theorem StoreSignerAddressFromString_one_byte:
  "DecodeString (TrimPrefix ''0x01'' ''0x'') = Inr [1]
   \<and> StoreSignerAddressFromString ''0x01'' = Inr (Some (BytesToAddress [1]))
   \<and> Rep_Address (BytesToAddress [1]) = replicate 19 0 @ [1]"
  by (simp add: StoreSignerAddressFromString_def TrimPrefix_def HasPrefix_def fromHexChar_def
      Rep_BytesToAddress)

text \<open>
  Claim C9. The default configuration has the empty string as its store signer, and
  the resolver maps the empty string to the address of 20 zero bytes with no error,
  which is not the "no restriction" result.
\<close>

theorem StoreSignerAddressFromString_empty:
  "StoreSignerAddress (DefaultDataAvailabilityConfig zeroAggregatorConfig) = []
   \<and> StoreSignerAddressFromString [] = Inr (Some (BytesToAddress []))
   \<and> Rep_Address (BytesToAddress []) = replicate 20 0
   \<and> StoreSignerAddressFromString [] \<noteq> Inr None"
  by (simp add: StoreSignerAddressFromString_def TrimPrefix_def HasPrefix_def
      DefaultDataAvailabilityConfig_def Rep_BytesToAddress)

text \<open>
  Claim C10. For every input other than \<open>none\<close> whose remainder after the optional
  \<open>0x\<close> has even length and only hexadecimal digits, the resolver succeeds: the
  remainder decodes to half as many bytes, and the address returned holds the last 20 of
  them when there are more than 20, and the bytes after leading zero bytes when there are
  fewer.
\<close>

theorem StoreSignerAddressFromString_any_length:
  assumes "s \<noteq> ''none''"
    and "even (length (TrimPrefix s ''0x''))"
    and "\<forall>c\<in>set (TrimPrefix s ''0x''). fromHexChar c \<noteq> None"
  shows "\<exists>bs. DecodeString (TrimPrefix s ''0x'') = Inr bs
            \<and> length (TrimPrefix s ''0x'') = 2 * length bs
            \<and> StoreSignerAddressFromString s = Inr (Some (BytesToAddress bs))
            \<and> (20 < length bs \<longrightarrow>
                 Rep_Address (BytesToAddress bs) = drop (length bs - 20) bs)
            \<and> (length bs \<le> 20 \<longrightarrow>
                 Rep_Address (BytesToAddress bs) = replicate (20 - length bs) 0 @ bs)"
proof -
  from assms(2,3) obtain bs where bs: "DecodeString (TrimPrefix s ''0x'') = Inr bs"
    using DecodeString_Inr_iff [of "TrimPrefix s ''0x''"] by blast
  have "StoreSignerAddressFromString s = Inr (Some (BytesToAddress bs))"
    using assms(1) bs by (simp add: StoreSignerAddressFromString_other)
  with bs DecodeString_length [OF bs] show ?thesis
    by (simp add: Rep_BytesToAddress)
qed

theorem StoreSignerAddressFromString_any_length_witness:
  "StoreSignerAddressFromString ''0x0102'' = Inr (Some (BytesToAddress [1, 2]))
   \<and> Rep_Address (BytesToAddress [1, 2]) = replicate 18 0 @ [1, 2]
   \<and> StoreSignerAddressFromString ''ff000102030405060708090a0b0c0d0e0f10111213'' =
       Inr (Some (BytesToAddress [255, 0, 1, 2, 3, 4, 5, 6, 7, 8, 9, 10, 11, 12, 13, 14, 15,
         16, 17, 18, 19]))
   \<and> Rep_Address (BytesToAddress [255, 0, 1, 2, 3, 4, 5, 6, 7, 8, 9, 10, 11, 12, 13, 14, 15,
         16, 17, 18, 19]) =
       [0, 1, 2, 3, 4, 5, 6, 7, 8, 9, 10, 11, 12, 13, 14, 15, 16, 17, 18, 19]"
  using StoreSignerAddressFromString_any_length [of "''0x0102''"]
    StoreSignerAddressFromString_any_length
      [of "''ff000102030405060708090a0b0c0d0e0f10111213''"]
  by (simp add: TrimPrefix_def HasPrefix_def fromHexChar_def)

section \<open>Properties of the configuration loader\<close>

subsection \<open>Merging and searching\<close>

lemma mergeValue_Map [simp]: "mergeValue (Map a) (Map b) = Map (Merge a b)"
  by (auto simp: Merge_def fun_eq_iff split: option.splits)

lemma mergeValue_Map_Val [simp]: "mergeValue (Map a) (Val x) = Map a"
  by simp

declare mergeValue.simps(2) [simp del]

lemma Merge_apply:
  "Merge a b key =
     (case a key of
        None \<Rightarrow> b key
      | Some val \<Rightarrow>
          (case b key of None \<Rightarrow> Some val | Some bVal \<Rightarrow> Some (mergeValue val bVal)))"
  by (simp add: Merge_def)

lemma Merge_empty_left: "Merge Map.empty b = b"
  by (simp add: Merge_def)

lemma Search_walk: "Search mp path = (if path = [] then None else walk path (Map mp))"
proof (induction mp path rule: Search.induct)
  case (1 mp)
  then show ?case by simp
next
  case (2 mp p ps)
  then show ?case
    by (cases ps) (auto split: option.splits conf.splits)
qed

text \<open>
  A value that the merged-in tree has at a path is the value of the result at that path,
  whatever the other tree holds.
\<close>

lemma leaf_wins_value:
  "p \<noteq> [] \<Longrightarrow> walk p a = Some (Val v) \<Longrightarrow> walk p (mergeValue a b) = Some (Val v)"
proof (induction p arbitrary: a b)
  case Nil
  then show ?case by simp
next
  case (Cons k ks)
  show ?case
  proof (cases a)
    case (Val x)
    with Cons.prems show ?thesis by simp
  next
    case (Map am)
    with Cons.prems obtain nx where nx: "am k = Some nx" "walk ks nx = Some (Val v)"
      by (auto split: option.splits)
    show ?thesis
    proof (cases b)
      case (Val y)
      with Map nx show ?thesis by (simp add: Merge_apply)
    next
      case bm: (Map bmap)
      show ?thesis
      proof (cases "bmap k")
        case None
        with Map bm nx show ?thesis by (simp add: Merge_apply)
      next
        case (Some bv)
        show ?thesis
        proof (cases ks)
          case Nil
          with nx have "nx = Val v" by simp
          with Map bm nx Some Nil show ?thesis by (simp add: Merge_apply)
        next
          case (Cons k2 ks2)
          then have "ks \<noteq> []" by simp
          from Cons.IH [OF this nx(2)] have "walk ks (mergeValue nx bv) = Some (Val v)" .
          with Map bm nx Some show ?thesis by (simp add: Merge_apply)
        qed
      qed
    qed
  qed
qed

lemma silent_walk: "silent p a \<Longrightarrow> walk p a = None"
  by (induction p arbitrary: a) (auto split: conf.splits option.splits)

text \<open>A tree that is silent on a path leaves what the other tree has there.\<close>

lemma silent_keeps_value:
  "silent p a \<Longrightarrow> walk p (mergeValue a b) = walk p b"
proof (induction p arbitrary: a b)
  case Nil
  then show ?case by simp
next
  case (Cons k ks)
  then obtain am where a: "a = Map am"
    by (cases a) auto
  show ?case
  proof (cases b)
    case (Val y)
    with a silent_walk [OF Cons.prems] show ?thesis by simp
  next
    case bm: (Map bmap)
    show ?thesis
    proof (cases "am k")
      case None
      with a bm show ?thesis by (simp add: Merge_apply)
    next
      case (Some nx)
      with a Cons.prems have s: "silent ks nx" by simp
      show ?thesis
      proof (cases "bmap k")
        case None
        with a bm Some silent_walk [OF s] show ?thesis by (simp add: Merge_apply)
      next
        case bv: (Some bv)
        from Cons.IH [OF s] have "walk ks (mergeValue nx bv) = walk ks bv" .
        with a bm Some bv show ?thesis by (simp add: Merge_apply)
      qed
    qed
  qed
qed

lemma Merge_leaf_wins:
  "Search a p = Some (Val v) \<Longrightarrow> Search (Merge a b) p = Some (Val v)"
  using leaf_wins_value [of p "Map a" v "Map b"]
  by (auto simp: Search_walk split: if_splits)

lemma Merge_silent_keeps:
  "silent p (Map a) \<Longrightarrow> Search (Merge a b) p = Search b p"
  using silent_keeps_value [of p "Map a" "Map b"]
  by (auto simp: Search_walk)

text \<open>
  In an overlay a path has the value of the first tree that has a value there, when the
  trees before it are silent on the path; and it has what the base has when all trees are
  silent on it.
\<close>

lemma overlay_lookup:
  "\<lbrakk>\<forall>x\<in>set upper. silent p (Map x); Search m p = Some (Val v)\<rbrakk>
   \<Longrightarrow> Search (overlay (upper @ m # lower) k) p = Some (Val v)"
  by (induction upper) (simp_all add: Merge_leaf_wins Merge_silent_keeps)

lemma overlay_base:
  "\<forall>x\<in>set ms. silent p (Map x) \<Longrightarrow> Search (overlay ms k) p = Search k p"
  by (induction ms) (simp_all add: Merge_silent_keeps)

subsection \<open>Renaming of environment variables\<close>

lemma asciiLower_letter:
  "65 \<le> (of_char c :: nat) \<Longrightarrow> (of_char c :: nat) \<le> 90 \<Longrightarrow>
   (of_char (case c of Char b0 b1 b2 b3 b4 b5 b6 b7 \<Rightarrow> Char b0 b1 b2 b3 b4 True b6 b7) :: nat) =
     of_char c + 32"
  by (cases c) (auto simp: of_bool_def split: if_splits)

lemma envKey_example:
  "envKey example_outside ''NITRO'' ''NITRO_NODE_FOO__BAR'' = ''node.foo-bar''"
  by (simp add: envKey_def TrimPrefix_def HasPrefix_def asciiLower_def example_outside_def)

subsection \<open>One pass\<close>

lemma Load_posflag: "Load k (posflag_Provider f k) None = Inr (Merge (posflag_Read f k) k)"
  by (simp add: Load_def posflag_Provider_def)

lemma env_step:
  assumes "wrapped (loadEnvironmentVariables w kb) msg = Inr k'"
  shows "\<exists>E. envTree w kb = Inr E \<and> k' = Merge E kb"
  using assms
  by (auto simp: wrapped_def loadEnvironmentVariables_def envTree_def Load_def env_Provider_def
      Let_def Merge_empty_left split: sum.splits if_splits)

lemma pass_layers:
  assumes "applyOverrideOverrides w f k = Inr k'"
  shows "\<exists>J E. inlineTree w (Merge (posflag_Read f k) k) = Inr J
      \<and> envTree w (overlay [cliAgain w f (Merge (posflag_Read f k) k) J, J, posflag_Read f k] k)
          = Inr E
      \<and> k' = overlay [E, cliAgain w f (Merge (posflag_Read f k) k) J, J, posflag_Read f k] k"
proof -
  define ka where "ka = Merge (posflag_Read f k) k"
  have l1: "Load k (posflag_Provider f k) None = Inr ka"
    unfolding ka_def by (rule Load_posflag)
  show ?thesis
  proof (cases "String w ka ''conf.string'' = []")
    case True
    then have J: "inlineTree w ka = Inr Map.empty"
      by (simp add: inlineTree_def)
    from True have P2: "cliAgain w f ka Map.empty = Map.empty"
      by (simp add: cliAgain_def)
    from assms True
    have "wrapped (loadEnvironmentVariables w ka) ''error loading environment variables'' = Inr k'"
      unfolding applyOverrideOverrides_def l1 by (simp add: wrapped_def)
    from env_step [OF this] obtain E where "envTree w ka = Inr E" "k' = Merge E ka"
      by blast
    with J P2 show ?thesis
      unfolding ka_def [symmetric]
      by (intro exI [of _ Map.empty] exI [of _ E]) (simp add: Merge_empty_left ka_def)
  next
    case False
    from assms False obtain J
      where J: "json_Unmarshal w (String w ka ''conf.string'') = Inr J"
      unfolding applyOverrideOverrides_def l1
      by (auto simp: wrapped_def Load_def rawbytes_Provider_def Let_def split: sum.splits)
    with False have J': "inlineTree w ka = Inr J"
      by (simp add: inlineTree_def)
    from False have P2: "cliAgain w f ka J = posflag_Read f (Merge J ka)"
      by (simp add: cliAgain_def)
    define kb where "kb = Merge (posflag_Read f (Merge J ka)) (Merge J ka)"
    have l2: "Load (Merge J ka) (posflag_Provider f (Merge J ka)) None = Inr kb"
      unfolding kb_def by (rule Load_posflag)
    have l3: "Load ka (rawbytes_Provider (String w ka ''conf.string''))
        (Some (json_Unmarshal w)) = Inr (Merge J ka)"
      using J by (simp add: Load_def rawbytes_Provider_def)
    from assms False
    have "wrapped (loadEnvironmentVariables w kb) ''error loading environment variables'' = Inr k'"
      unfolding applyOverrideOverrides_def l1
      by (simp add: wrapped_def Let_def l2 l3)
    from env_step [OF this] obtain E where "envTree w kb = Inr E" "k' = Merge E kb"
      by blast
    with J' P2 show ?thesis
      unfolding ka_def [symmetric]
      by (intro exI [of _ J] exI [of _ E]) (simp add: kb_def ka_def)
  qed
qed

subsection \<open>The passes\<close>

text \<open>
  \<open>loadS3Variables\<close> gives \<open>Load\<close> no parser, unlike the load of the local file
  next to it, and the S3 provider has no \<open>Read\<close>: the load fails whatever the bucket
  holds, and with it the loader, whenever an S3 secret key is configured.
\<close>

lemma loadS3Variables_fails:
  "loadS3Variables w k = Inl ''s3 provider does not support this method''"
  by (simp add: loadS3Variables_def Load_def s3_Provider_def)

lemma applyOverrides_S3_fails:
  assumes "applyOverrideOverrides w f k0 = Inr k1"
    and "String w k1 ''conf.s3.secret-key'' \<noteq> []"
  shows "applyOverrides w f k0 =
           Inl ''error loading S3 settings: s3 provider does not support this method''"
  using assms by (simp add: applyOverrides_def loadS3Variables_fails wrapped_def Wrap_def)

lemma loader_structure:
  assumes "applyOverrides w f k0 = Inr k'"
  shows "\<exists>k1. applyOverrideOverrides w f k0 = Inr k1
    \<and> (if String w k1 ''conf.file'' = [] then k' = k1
        else \<exists>F. fileTree w (String w k1 ''conf.file'') = Inr F \<and>
               applyOverrideOverrides w f (Merge F k1) = Inr k')"
proof -
  from assms obtain k1 where p1: "applyOverrideOverrides w f k0 = Inr k1"
    by (cases "applyOverrideOverrides w f k0") (simp_all add: applyOverrides_def)
  have s3: "String w k1 ''conf.s3.secret-key'' = []"
  proof (rule ccontr)
    assume "String w k1 ''conf.s3.secret-key'' \<noteq> []"
    from applyOverrides_S3_fails [OF p1 this] assms show False by simp
  qed
  show ?thesis
  proof (cases "String w k1 ''conf.file'' = []")
    case True
    with assms p1 s3 show ?thesis
      by (simp add: applyOverrides_def)
  next
    case False
    with assms p1 s3
    have run: "(case wrapped (Load k1 (file_Provider w (String w k1 ''conf.file''))
                   (Some (json_Unmarshal w))) ''error loading local config file'' of
                 Inl err \<Rightarrow> Inl err
               | Inr k \<Rightarrow> applyOverrideOverrides w f k) = Inr k'"
      by (simp add: applyOverrides_def)
    then obtain kf where kf: "Load k1 (file_Provider w (String w k1 ''conf.file''))
        (Some (json_Unmarshal w)) = Inr kf"
      and p3: "applyOverrideOverrides w f kf = Inr k'"
      by (auto simp: wrapped_def split: sum.splits)
    from kf obtain F where "fileTree w (String w k1 ''conf.file'') = Inr F" "kf = Merge F k1"
      by (auto simp: Load_def file_Provider_def fileTree_def split: sum.splits)
    with p1 p3 False show ?thesis
      by auto
  qed
qed

text \<open>
  Claim C8, as the code has it. Whenever the loader succeeds, the final config is an
  overlay of trees, the strongest first. The first pass gives \<open>k1\<close>: the environment
  variables (when \<open>conf.env-prefix\<close> is set), over the command line as it is loaded
  once more after an inline string, over the inline config string (when \<open>conf.string\<close>
  is set), over the command line, over the initial config. The command line is the flags
  that were set and, of the other flags, the defaults of those whose key does not exist
  yet in the config it is loaded on. When \<open>conf.file\<close> is set, the local file is loaded
  over \<open>k1\<close> and a last pass puts the command line, its inline string and its
  environment variables above the file; otherwise the result is \<open>k1\<close>. So the order is:
  environment, command line, inline string, local file, defaults.
\<close>

theorem applyOverrides_precedence:
  assumes "applyOverrides w f k0 = Inr k'"
  shows "\<exists>J1 E1 F J3 E3.
     (let P1 = posflag_Read f k0; ka = Merge P1 k0; P2 = cliAgain w f ka J1;
          k1 = overlay [E1, P2, J1, P1] k0
      in inlineTree w ka = Inr J1
       \<and> envTree w (overlay [P2, J1, P1] k0) = Inr E1
       \<and> (if String w k1 ''conf.file'' = [] then k' = k1
          else (let kf = Merge F k1; P3 = posflag_Read f kf; kc = Merge P3 kf;
                    P4 = cliAgain w f kc J3
                in fileTree w (String w k1 ''conf.file'') = Inr F
                 \<and> inlineTree w kc = Inr J3
                 \<and> envTree w (overlay [P4, J3, P3, F] k1) = Inr E3
                 \<and> k' = overlay [E3, P4, J3, P3, F] k1)))"
proof -
  from loader_structure [OF assms] obtain k1 where
    p1: "applyOverrideOverrides w f k0 = Inr k1"
    and fl: "if String w k1 ''conf.file'' = [] then k' = k1
        else \<exists>F. fileTree w (String w k1 ''conf.file'') = Inr F \<and>
               applyOverrideOverrides w f (Merge F k1) = Inr k'"
    by blast
  from pass_layers [OF p1] obtain J1 E1 where
    J1: "inlineTree w (Merge (posflag_Read f k0) k0) = Inr J1"
    and E1: "envTree w (overlay [cliAgain w f (Merge (posflag_Read f k0) k0) J1, J1,
               posflag_Read f k0] k0) = Inr E1"
    and k1: "k1 = overlay [E1, cliAgain w f (Merge (posflag_Read f k0) k0) J1, J1,
               posflag_Read f k0] k0"
    by blast
  show ?thesis
  proof (cases "String w k1 ''conf.file'' = []")
    case True
    with fl have "k' = k1" by simp
    with True J1 E1 k1 show ?thesis
      unfolding Let_def
      by (intro exI [of _ J1] exI [of _ E1]) (simp only: simp_thms if_True)
  next
    case False
    with fl obtain F where F: "fileTree w (String w k1 ''conf.file'') = Inr F"
      and p3: "applyOverrideOverrides w f (Merge F k1) = Inr k'"
      by auto
    from pass_layers [OF p3] obtain J3 E3 where
      "inlineTree w (Merge (posflag_Read f (Merge F k1)) (Merge F k1)) = Inr J3"
      "envTree w (overlay [cliAgain w f (Merge (posflag_Read f (Merge F k1)) (Merge F k1)) J3,
         J3, posflag_Read f (Merge F k1)] (Merge F k1)) = Inr E3"
      "k' = overlay [E3, cliAgain w f (Merge (posflag_Read f (Merge F k1)) (Merge F k1)) J3,
         J3, posflag_Read f (Merge F k1)] (Merge F k1)"
      by blast
    with False F J1 E1 k1 show ?thesis
      unfolding Let_def
      by (intro exI [of _ J1] exI [of _ E1] exI [of _ F] exI [of _ J3] exI [of _ E3])
        (simp only: simp_thms if_False overlay.simps)
  qed
qed

lemmas loader_defs =
  applyOverrides_def applyOverrideOverrides_def loadEnvironmentVariables_def
  loadS3Variables_def Load_def wrapped_def posflag_Provider_def posflag_Read_def
  rawbytes_Provider_def file_Provider_def env_Provider_def s3_Provider_def
  Exists_def Get_def String_def envKey_def asciiLower_def Unflatten_def Merge_apply
  TrimPrefix_def HasPrefix_def example_flags_def example_outside_def Let_def valueOf_def

text \<open>
  In the run with every source but S3, each key ends with the value of the strongest
  source that sets it.
\<close>

theorem applyOverrides_precedence_witness:
  "\<not> isl (applyOverrides example_outside example_flags Map.empty)
   \<and> valueOf (applyOverrides example_outside example_flags Map.empty) ''node.a'' =
       Some (Val ''env'')
   \<and> valueOf (applyOverrides example_outside example_flags Map.empty) ''node.b'' =
       Some (Val ''cli'')
   \<and> valueOf (applyOverrides example_outside example_flags Map.empty) ''node.c'' =
       Some (Val ''inline'')
   \<and> valueOf (applyOverrides example_outside example_flags Map.empty) ''node.d'' =
       Some (Val ''file'')
   \<and> valueOf (applyOverrides example_outside example_flags Map.empty) ''node.e'' =
       Some (Val ''file'')
   \<and> valueOf (applyOverrides example_outside example_flags Map.empty) ''node.g'' =
       Some (Val ''default'')"
proof -
  have "\<exists>k'. applyOverrides example_outside example_flags Map.empty = Inr k'"
    by (simp add: loader_defs)
  then obtain k' where run: "applyOverrides example_outside example_flags Map.empty = Inr k'"
    by blast
  from applyOverrides_precedence [OF run]
  have "Search k' [''node'', ''a''] = Some (Val ''env'')
      \<and> Search k' [''node'', ''b''] = Some (Val ''cli'')
      \<and> Search k' [''node'', ''c''] = Some (Val ''inline'')
      \<and> Search k' [''node'', ''d''] = Some (Val ''file'')
      \<and> Search k' [''node'', ''e''] = Some (Val ''file'')
      \<and> Search k' [''node'', ''g''] = Some (Val ''default'')"
    by (auto simp: inlineTree_def envTree_def fileTree_def cliAgain_def posflag_Read_def
        Exists_def Get_def String_def envKey_def asciiLower_def Unflatten_def Merge_apply
        TrimPrefix_def HasPrefix_def example_flags_def example_outside_def Let_def
        split: if_splits)
  with run show ?thesis
    by (simp add: valueOf_def Get_def)
qed

text \<open>
  The order the spec gives puts the command line above the environment. In the run above
  the command line sets \<open>node.a\<close> to \<open>cli\<close>, the variable \<open>NITRO_NODE_A\<close> holds
  \<open>env\<close>, and the loader returns \<open>env\<close>: a pass already ends with the environment,
  before any file is read.
\<close>

theorem applyOverrides_env_over_flag:
  "valueOf (Inr (posflag_Read example_flags Map.empty)) ''node.a'' = Some (Val ''cli'')
   \<and> valueOf (envTree example_outside (posflag_Read example_flags Map.empty)) ''node.a'' =
       Some (Val ''env'')
   \<and> valueOf (applyOverrideOverrides example_outside example_flags Map.empty) ''node.a'' =
       Some (Val ''env'')
   \<and> valueOf (applyOverrides example_outside example_flags Map.empty) ''node.a'' =
       Some (Val ''env'')"
  by (simp add: loader_defs envTree_def)

end
